theory Spec2Isabelle
  imports Complex_Main
begin

section \<open>Statistic types of the measurement subsystem\<close>

text \<open>
  Shallow embedding of \<^verbatim>\<open>optimum_benchmark/trackers/latency.py\<close>,
  \<^verbatim>\<open>optimum_benchmark/trackers/energy.py\<close> and
  \<^verbatim>\<open>optimum_benchmark/launchers/torchrun/launcher.py\<close>.

  Python's \<^verbatim>\<open>float\<close> is modelled by \<^typ>\<open>real\<close>: rounding, infinities and NaN are
  outside the model. A possibly absent statistic (\<^verbatim>\<open>None\<close>) is an \<^typ>\<open>'a option\<close>,
  a raised exception is the left summand of a sum type whose right summand is the result.
\<close>

datatype error =
    ValueError string
  | IndexError string
  | RuntimeError string
  | FileNotFoundError string

subsection \<open>Python built-ins used by the source\<close>

text \<open>\<^verbatim>\<open>sum(xs)\<close>: left-to-right accumulation starting from 0.\<close>

definition py_sum :: "real list \<Rightarrow> real" where
  "py_sum xs = foldl (+) 0 xs"

text \<open>\<^verbatim>\<open>sum(xss, [])\<close>: left-to-right accumulation of lists starting from the empty list.\<close>

definition py_sum_lists :: "'a list list \<Rightarrow> 'a list" where
  "py_sum_lists xss = foldl (@) [] xss"

text \<open>
  \<^verbatim>\<open>max(xs)\<close>: raises on an empty iterable; otherwise keeps the first element and replaces
  it only by a strictly greater later one.
\<close>

fun py_max :: "real list \<Rightarrow> error + real" where
  "py_max [] = Inl (ValueError ''max() arg is an empty sequence'')"
| "py_max (x # xs) = Inr (foldl (\<lambda>m v. if v > m then v else m) x xs)"

text \<open>\<^verbatim>\<open>xs[i]\<close> with Python's negative indices; out of range raises \<^verbatim>\<open>IndexError\<close>.\<close>

definition getitem :: "'a list \<Rightarrow> int \<Rightarrow> error + 'a" where
  "getitem xs i =
     (let k = (if i < 0 then i + int (length xs) else i)
      in if k < 0 \<or> int (length xs) \<le> k
         then Inl (IndexError ''list index out of range'')
         else Inr (xs ! nat k))"

text \<open>\<^verbatim>\<open>range(n)\<close> as the list of its indices.\<close>

definition py_range :: "nat \<Rightarrow> int list" where
  "py_range n = map int [0..<n]"

text \<open>
  A list comprehension \<^verbatim>\<open>[f(i) for i in idxs]\<close> whose element expression may raise:
  the first exception aborts the comprehension.
\<close>

fun list_comp :: "('i \<Rightarrow> error + 'a) \<Rightarrow> 'i list \<Rightarrow> error + 'a list" where
  "list_comp f [] = Inr []"
| "list_comp f (i # idxs) =
     (case f i of
        Inl e \<Rightarrow> Inl e
      | Inr v \<Rightarrow> (case list_comp f idxs of Inl e \<Rightarrow> Inl e | Inr vs \<Rightarrow> Inr (v # vs)))"

text \<open>\<^verbatim>\<open>str(n)\<close> for a non-negative and for an arbitrary integer.\<close>

definition digit_char :: "nat \<Rightarrow> char" where
  "digit_char d = ''0123456789'' ! d"

fun str_nat :: "nat \<Rightarrow> string" where
  "str_nat n = (if n < 10 then [digit_char n] else str_nat (n div 10) @ [digit_char (n mod 10)])"

declare str_nat.simps [simp del]

definition str_int :: "int \<Rightarrow> string" where
  "str_int i = (if i < 0 then CHR ''-'' # str_nat (nat (- i)) else str_nat (nat i))"

subsection \<open>Latency\<close>

definition LATENCY_UNIT :: string where
  "LATENCY_UNIT = ''s''"

record Latency =
  unit :: string
  mean :: real
  stdev :: real
  "values" :: "real list"

text \<open>
  \<^verbatim>\<open>Latency.from_values\<close>. The exponent \<^verbatim>\<open>** 0.5\<close> is the real power \<open>powr (1/2)\<close>.
\<close>

definition Latency_from_values :: "real list \<Rightarrow> string \<Rightarrow> Latency" where
  "Latency_from_values vals u =
     (let m = (if length vals > 0 then py_sum vals / real (length vals) else 0);
          sd = (if length vals > 1
                then (py_sum (map (\<lambda>val. (val - m) ^ 2) vals) / real (length vals)) powr (1 / 2)
                else 0)
      in \<lparr>Latency.unit = u, mean = m, stdev = sd, values = vals\<rparr>)"

text \<open>\<^verbatim>\<open>Latency.aggregate\<close>.\<close>

definition Latency_aggregate :: "Latency option list \<Rightarrow> error + Latency option" where
  "Latency_aggregate latencies =
     (if length latencies = 0 \<or> list_all (\<lambda>latency. latency = None) latencies then Inr None
      else if list_ex (\<lambda>latency. latency = None) latencies
      then Inl (ValueError ''Some latency measurements are missing'')
      else (let u = Latency.unit (the (latencies ! 0));
                vals = py_sum_lists (map (\<lambda>lat. Latency.values (the lat)) latencies)
            in Inr (Some (Latency_from_values vals u))))"

text \<open>\<^verbatim>\<open>Latency.__sub__\<close> with a scalar argument.\<close>

definition Latency_sub :: "Latency \<Rightarrow> real \<Rightarrow> Latency" where
  "Latency_sub self scalar =
     Latency_from_values (map (\<lambda>lat. lat - scalar) (Latency.values self)) (Latency.unit self)"

subsection \<open>Throughput\<close>

record Throughput =
  unit :: string
  "value" :: real

text \<open>\<^verbatim>\<open>Throughput.aggregate\<close>.\<close>

definition Throughput_aggregate :: "Throughput option list \<Rightarrow> error + Throughput" where
  "Throughput_aggregate throughputs =
     (if length throughputs = 0 then Inl (ValueError ''No throughput measurements to aggregate'')
      else if list_ex (\<lambda>throughput. throughput = None) throughputs
      then Inl (ValueError ''Some throughput measurements are missing'')
      else (let u = Throughput.unit (the (throughputs ! 0));
                v = py_sum (map (\<lambda>throughput. Throughput.value (the throughput)) throughputs)
            in Inr \<lparr>Throughput.unit = u, value = v\<rparr>))"

text \<open>\<^verbatim>\<open>Throughput.from_latency\<close>; \<^verbatim>\<open>volume\<close> is a Python int.\<close>

definition Throughput_from_latency :: "Latency \<Rightarrow> int \<Rightarrow> string \<Rightarrow> Throughput" where
  "Throughput_from_latency latency volume u =
     (let v = (if mean latency > 0 then real_of_int volume / mean latency else 0)
      in \<lparr>Throughput.unit = u, value = v\<rparr>)"

subsection \<open>Energy and Efficiency\<close>

definition ENERGY_UNIT :: string where
  "ENERGY_UNIT = ''kWh''"

record Energy =
  unit :: string
  cpu :: real
  ram :: real
  gpu :: real
  total :: real

text \<open>\<^verbatim>\<open>Energy.aggregate\<close>.\<close>

definition Energy_aggregate :: "Energy option list \<Rightarrow> error + Energy option" where
  "Energy_aggregate energies =
     (if length energies = 0 \<or> list_all (\<lambda>energy. energy = None) energies then Inr None
      else if list_ex (\<lambda>energy. energy = None) energies
      then Inl (ValueError ''Some energy measurements are missing'')
      else
        (case py_max (map (\<lambda>energy. cpu (the energy)) energies) of Inl e \<Rightarrow> Inl e | Inr c \<Rightarrow>
        (case py_max (map (\<lambda>energy. gpu (the energy)) energies) of Inl e \<Rightarrow> Inl e | Inr g \<Rightarrow>
        (case py_max (map (\<lambda>energy. ram (the energy)) energies) of Inl e \<Rightarrow> Inl e | Inr r \<Rightarrow>
        (case py_max (map (\<lambda>energy. total (the energy)) energies) of Inl e \<Rightarrow> Inl e | Inr t \<Rightarrow>
           Inr (Some \<lparr>Energy.unit = ENERGY_UNIT, cpu = c, ram = r, gpu = g, total = t\<rparr>))))))"

record Efficiency =
  unit :: string
  "value" :: real

text \<open>\<^verbatim>\<open>Efficiency.aggregate\<close>.\<close>

definition Efficiency_aggregate :: "Efficiency option list \<Rightarrow> error + Efficiency" where
  "Efficiency_aggregate efficiencies =
     (if length efficiencies = 0 then Inl (ValueError ''No efficiency measurements to aggregate'')
      else if list_ex (\<lambda>efficiency. efficiency = None) efficiencies
      then Inl (ValueError ''Some efficiency measurements are None'')
      else (let u = Efficiency.unit (the (efficiencies ! 0));
                v = py_sum (map (\<lambda>efficiency. Efficiency.value (the efficiency)) efficiencies)
                    / real (length efficiencies)
            in Inr \<lparr>Efficiency.unit = u, value = v\<rparr>))"

text \<open>\<^verbatim>\<open>Efficiency.from_energy\<close>.\<close>

definition Efficiency_from_energy :: "Energy \<Rightarrow> int \<Rightarrow> string \<Rightarrow> Efficiency" where
  "Efficiency_from_energy energy volume u =
     \<lparr>Efficiency.unit = u,
      value = (if total energy > 0 then real_of_int volume / total energy else 0)\<rparr>"

section \<open>LatencyTracker\<close>

text \<open>
  The tracker's mutable attributes are the fields of a record that every method takes and
  returns. A time marker is a real number: the reading of \<^verbatim>\<open>time.perf_counter()\<close> in
  seconds on the host path, and on the accelerator path the instant, in milliseconds on the
  device time line, at which the \<^verbatim>\<open>torch.cuda.Event\<close> was recorded, so that
  \<^verbatim>\<open>a.elapsed_time(b)\<close> is \<open>b - a\<close> and \<^verbatim>\<open>synchronize()\<close> changes no data. Clock readings are
  supplied by the caller of the model. The field \<open>barriers\<close> counts the calls of
  \<^verbatim>\<open>torch.distributed.barrier()\<close>, the only trace the collective leaves in one rank.
\<close>

record LatencyTracker =
  device :: string
  backend :: string
  distributed :: bool
  start_events :: "real list"
  end_events :: "real list"
  start_time :: real
  barriers :: nat

definition barrier :: "LatencyTracker \<Rightarrow> LatencyTracker" where
  "barrier self = self\<lparr>barriers := Suc (barriers self)\<rparr>"

text \<open>\<^verbatim>\<open>LatencyTracker.reset\<close>; \<open>now\<close> is the reading of the host clock.\<close>

definition reset :: "LatencyTracker \<Rightarrow> real \<Rightarrow> LatencyTracker" where
  "reset self now = self\<lparr>start_events := [], end_events := [], start_time := now\<rparr>"

text \<open>\<^verbatim>\<open>LatencyTracker.__init__\<close>.\<close>

definition LatencyTracker_init :: "string \<Rightarrow> string \<Rightarrow> bool \<Rightarrow> real \<Rightarrow> LatencyTracker" where
  "LatencyTracker_init dev back is_dist now =
     reset \<lparr>device = dev, backend = back, distributed = is_dist,
            start_events = [], end_events = [], start_time = 0, barriers = 0\<rparr> now"

text \<open>
  The generators \<^verbatim>\<open>_cpu_latency\<close> and \<^verbatim>\<open>_pytorch_cuda_latency\<close>, each cut at its
  \<^verbatim>\<open>yield\<close>: the part run on entry and the part run when the generator is resumed.
\<close>

definition cpu_latency_enter :: "LatencyTracker \<Rightarrow> real \<Rightarrow> LatencyTracker" where
  "cpu_latency_enter self start = self\<lparr>start_events := start_events self @ [start]\<rparr>"

definition cpu_latency_exit :: "LatencyTracker \<Rightarrow> real \<Rightarrow> LatencyTracker" where
  "cpu_latency_exit self end_t = self\<lparr>end_events := end_events self @ [end_t]\<rparr>"

definition pytorch_cuda_latency_enter :: "LatencyTracker \<Rightarrow> real \<Rightarrow> LatencyTracker" where
  "pytorch_cuda_latency_enter self start = self\<lparr>start_events := start_events self @ [start]\<rparr>"

definition pytorch_cuda_latency_exit :: "LatencyTracker \<Rightarrow> real \<Rightarrow> LatencyTracker" where
  "pytorch_cuda_latency_exit self end_t = self\<lparr>end_events := end_events self @ [end_t]\<rparr>"

text \<open>
  \<^verbatim>\<open>LatencyTracker.track\<close>, a generator turned into a context manager. \<open>track_enter\<close> is
  the generator run up to the \<^verbatim>\<open>yield\<close> it delegates to, \<open>track_exit\<close> is the generator
  resumed after it; the delegate entered before the \<^verbatim>\<open>yield\<close> is the one resumed, so the
  choice between the two delegates is the one made on entry (\<open>entered\<close>).
\<close>

definition track_enter :: "LatencyTracker \<Rightarrow> real \<Rightarrow> LatencyTracker" where
  "track_enter self t_start =
     (let s1 = (if distributed self then barrier self else self)
      in if backend s1 = ''pytorch'' \<and> device s1 = ''cuda''
         then pytorch_cuda_latency_enter s1 t_start
         else cpu_latency_enter s1 t_start)"

definition track_exit :: "LatencyTracker \<Rightarrow> LatencyTracker \<Rightarrow> real \<Rightarrow> LatencyTracker" where
  "track_exit entered self t_end =
     (let s1 = (if backend entered = ''pytorch'' \<and> device entered = ''cuda''
                then pytorch_cuda_latency_exit self t_end
                else cpu_latency_exit self t_end)
      in if distributed s1 then barrier s1 else s1)"

text \<open>
  \<^verbatim>\<open>with tracker.track(): body\<close>. The body receives the tracker and either completes
  (\<open>Inr ()\<close>) or raises (\<open>Inl exc\<close>). An exception of the body is thrown into the generator
  at its \<^verbatim>\<open>yield\<close>; nothing catches it there, so the code after the \<^verbatim>\<open>yield\<close> does not run
  and the \<^verbatim>\<open>with\<close> statement re-raises the same exception.
\<close>

definition track ::
  "LatencyTracker \<Rightarrow> real \<Rightarrow> (LatencyTracker \<Rightarrow> ('x + unit) \<times> LatencyTracker) \<Rightarrow> real
     \<Rightarrow> ('x + unit) \<times> LatencyTracker" where
  "track self t_start body t_end =
     (case body (track_enter self t_start) of
        (Inl exc, s) \<Rightarrow> (Inl exc, s)
      | (Inr _, s) \<Rightarrow> (Inr (), track_exit self s t_end))"

text \<open>\<^verbatim>\<open>LatencyTracker.get_elapsed_time\<close>.\<close>

definition get_elapsed_time :: "LatencyTracker \<Rightarrow> real \<Rightarrow> real" where
  "get_elapsed_time self now = now - start_time self"

text \<open>\<^verbatim>\<open>LatencyTracker.get_latency\<close>.\<close>

definition get_latency :: "LatencyTracker \<Rightarrow> error + Latency" where
  "get_latency self =
     (if backend self = ''pytorch'' \<and> device self = ''cuda'' then
        (case getitem (start_events self) (- 1) of Inl e \<Rightarrow> Inl e | Inr _ \<Rightarrow>
        (case getitem (end_events self) (- 1) of Inl e \<Rightarrow> Inl e | Inr _ \<Rightarrow>
        (case list_comp
                (\<lambda>i. case getitem (start_events self) i of Inl e \<Rightarrow> Inl e | Inr s \<Rightarrow>
                     (case getitem (end_events self) i of Inl e \<Rightarrow> Inl e | Inr e \<Rightarrow>
                        Inr ((e - s) / 1000)))
                (py_range (length (start_events self))) of
           Inl e \<Rightarrow> Inl e
         | Inr latencies_list \<Rightarrow> Inr (Latency_from_values latencies_list LATENCY_UNIT))))
      else
        (case list_comp
                (\<lambda>i. case getitem (end_events self) i of Inl e \<Rightarrow> Inl e | Inr e \<Rightarrow>
                     (case getitem (start_events self) i of Inl e \<Rightarrow> Inl e | Inr s \<Rightarrow>
                        Inr (e - s)))
                (py_range (length (start_events self))) of
           Inl e \<Rightarrow> Inl e
         | Inr latencies_list \<Rightarrow> Inr (Latency_from_values latencies_list LATENCY_UNIT)))"

text \<open>\<^verbatim>\<open>LatencyTracker.get_throughput\<close>.\<close>

definition get_throughput :: "LatencyTracker \<Rightarrow> int \<Rightarrow> string \<Rightarrow> error + Throughput" where
  "get_throughput self volume u =
     (case get_latency self of
        Inl e \<Rightarrow> Inl e
      | Inr latency \<Rightarrow> Inr (Throughput_from_latency latency volume u))"

section \<open>TorchrunLauncher\<close>

text \<open>
  The part of \<^verbatim>\<open>TorchrunLauncher.launch\<close> after \<^verbatim>\<open>isolated_process.join()\<close>. What the
  isolated process left behind is the input: the files of the working directory (a map
  from path to content) and the exit code. \<^verbatim>\<open>BenchmarkReport.from_json\<close> and
  \<^verbatim>\<open>BenchmarkReport.aggregate\<close> belong to a module outside the sources at hand and are
  parameters; either may raise.
\<close>

definition report_file :: "nat \<Rightarrow> string" where
  "report_file rank = ''benchmark_report_rank_'' @ str_nat rank @ ''.json''"

definition isfile :: "(string \<rightharpoonup> 'j) \<Rightarrow> string \<Rightarrow> bool" where
  "isfile fs path = (fs path \<noteq> None)"

definition read_report :: "('j \<Rightarrow> error + 'r) \<Rightarrow> (string \<rightharpoonup> 'j) \<Rightarrow> string \<Rightarrow> error + 'r" where
  "read_report from_json fs path =
     (case fs path of None \<Rightarrow> Inl (FileNotFoundError path) | Some content \<Rightarrow> from_json content)"

definition launch ::
  "nat \<Rightarrow> (string \<rightharpoonup> 'j) \<Rightarrow> int \<Rightarrow> ('j \<Rightarrow> error + 'r) \<Rightarrow> ('r list \<Rightarrow> error + 'r) \<Rightarrow> error + 'r" where
  "launch nproc_per_node fs exitcode from_json aggregate =
     (if list_all (\<lambda>rank. isfile fs (report_file rank)) [0..<nproc_per_node] then
        (case list_comp (\<lambda>rank. read_report from_json fs (report_file rank)) [0..<nproc_per_node] of
           Inl e \<Rightarrow> Inl e
         | Inr reports \<Rightarrow> aggregate reports)
      else if exitcode \<noteq> 0 then
        Inl (RuntimeError (''Process exited with non-zero code '' @ str_int exitcode @ ''.''))
      else Inl (RuntimeError ''Could not retrieve report from isolated process.''))"

section \<open>Reference notions of the specification\<close>

text \<open>
  The arithmetic mean and the population standard deviation as the specification names them,
  to compare with what the code computes.
\<close>

definition arithmetic_mean :: "real list \<Rightarrow> real" where
  "arithmetic_mean xs = sum_list xs / real (length xs)"

definition population_stdev :: "real list \<Rightarrow> real" where
  "population_stdev xs =
     sqrt (sum_list (map (\<lambda>x. (x - arithmetic_mean xs) ^ 2) xs) / real (length xs))"

section \<open>Concrete inputs for the examples\<close>

text \<open>
  Two bodies of a \<^verbatim>\<open>with tracker.track():\<close> block that leave the tracker alone: one
  raises, one completes. A working directory in which ranks 0 and 1 have written their
  report, and an aggregation of reports that are plain numbers.
\<close>

definition raising_body :: "LatencyTracker \<Rightarrow> (string + unit) \<times> LatencyTracker" where
  "raising_body s = (Inl ''boom'', s)"

definition passing_body :: "LatencyTracker \<Rightarrow> (string + unit) \<times> LatencyTracker" where
  "passing_body s = (Inr (), s)"

definition two_of_three :: "string \<rightharpoonup> nat" where
  "two_of_three =
     [''benchmark_report_rank_0.json'' \<mapsto> 10, ''benchmark_report_rank_1.json'' \<mapsto> 20]"

definition add_reports :: "nat list \<Rightarrow> error + nat" where
  "add_reports rs = Inr (sum_list rs)"

section \<open>Facts about the built-ins\<close>

lemma foldl_plus_sum_list: "foldl (+) a xs = a + sum_list (xs :: real list)"
  by (induction xs arbitrary: a) simp_all

lemma py_sum_sum_list: "py_sum xs = sum_list xs"
  by (simp add: py_sum_def foldl_plus_sum_list)

lemma foldl_append_concat: "foldl (@) acc xss = acc @ concat xss"
  by (induction xss arbitrary: acc) simp_all

lemma py_sum_lists_concat: "py_sum_lists xss = concat xss"
  by (simp add: py_sum_lists_def foldl_append_concat)

lemma foldl_keep_greater:
  "foldl (\<lambda>m v. if v > m then v else m) (x::real) xs = Max (set (x # xs))"
proof (induction xs arbitrary: x)
  case Nil
  show ?case by simp
next
  case (Cons y ys)
  have "Max (set (x # y # ys)) = Max (set ((if y > x then y else x) # ys))"
    by (cases ys) (auto simp: max_def)
  with Cons show ?case by simp
qed

lemma py_max_Max: "xs \<noteq> [] \<Longrightarrow> py_max xs = Inr (Max (set xs))"
  by (cases xs) (simp_all add: foldl_keep_greater del: set_simps)

lemma all_absent_map_Some: "list_all (\<lambda>x. x = None) (map Some xs) = (xs = [])"
  by (cases xs) simp_all

lemma no_absent_map_Some: "\<not> list_ex (\<lambda>x. x = None) (map Some xs)"
  by (simp add: list_ex_iff)

section \<open>Aggregation of Energy\<close>

text \<open>
  Claim C1. For a non-empty list of present Energy objects, \<^verbatim>\<open>Energy.aggregate\<close>
  returns the Energy whose cpu, gpu, ram and total are each the maximum of that component
  over the inputs (unit kWh). For the empty list and for a list of absent elements only,
  the result is absent. For a list with both a present and an absent element, a ValueError
  is raised.
\<close>

theorem Energy_aggregate_max:
  "(es \<noteq> [] \<longrightarrow>
      Energy_aggregate (map Some es) =
        Inr (Some \<lparr>Energy.unit = ENERGY_UNIT,
                   cpu = Max (set (map cpu es)), ram = Max (set (map ram es)),
                   gpu = Max (set (map gpu es)), total = Max (set (map total es))\<rparr>))
   \<and> (list_all (\<lambda>e. e = None) ns \<longrightarrow> Energy_aggregate ns = Inr None)
   \<and> (list_ex (\<lambda>e. e = None) ms \<and> list_ex (\<lambda>e. e \<noteq> None) ms \<longrightarrow>
        Energy_aggregate ms = Inl (ValueError ''Some energy measurements are missing''))"
proof (intro conjI impI)
  assume ne: "es \<noteq> []"
  have m: "\<And>f. py_max (map (\<lambda>energy. f (the energy)) (map Some es)) = Inr (Max (set (map f es)))"
    using ne by (simp add: py_max_Max o_def)
  show "Energy_aggregate (map Some es) =
        Inr (Some \<lparr>Energy.unit = ENERGY_UNIT,
                   cpu = Max (set (map cpu es)), ram = Max (set (map ram es)),
                   gpu = Max (set (map gpu es)), total = Max (set (map total es))\<rparr>)"
    unfolding Energy_aggregate_def using ne
    by (simp add: m all_absent_map_Some no_absent_map_Some del: set_map map_map)
next
  assume "list_all (\<lambda>e. e = None) ns"
  then show "Energy_aggregate ns = Inr None"
    by (simp add: Energy_aggregate_def)
next
  assume a: "list_ex (\<lambda>e. e = None) ms \<and> list_ex (\<lambda>e. e \<noteq> None) ms"
  then have "ms \<noteq> []" "\<not> list_all (\<lambda>e. e = None) ms"
    by (auto simp: list_ex_iff list_all_iff)
  with a show "Energy_aggregate ms = Inl (ValueError ''Some energy measurements are missing'')"
    by (simp add: Energy_aggregate_def)
qed

theorem Energy_aggregate_max_witness:
  "Energy_aggregate
     [Some \<lparr>Energy.unit = ''kWh'', cpu = 1, ram = 1, gpu = 2, total = 4\<rparr>,
      Some \<lparr>Energy.unit = ''kWh'', cpu = 3, ram = 2, gpu = 1, total = 6\<rparr>]
     = Inr (Some \<lparr>Energy.unit = ''kWh'', cpu = 3, ram = 2, gpu = 2, total = 6\<rparr>)
   \<and> Energy_aggregate [] = Inr None
   \<and> Energy_aggregate [None, None] = Inr None
   \<and> Energy_aggregate [Some \<lparr>Energy.unit = ''kWh'', cpu = 1, ram = 1, gpu = 2, total = 4\<rparr>, None]
       = Inl (ValueError ''Some energy measurements are missing'')"
  using Energy_aggregate_max
          [of "[\<lparr>Energy.unit = ''kWh'', cpu = 1, ram = 1, gpu = 2, total = 4\<rparr>,
                \<lparr>Energy.unit = ''kWh'', cpu = 3, ram = 2, gpu = 1, total = 6\<rparr>]"
              "[None, None]"
              "[Some \<lparr>Energy.unit = ''kWh'', cpu = 1, ram = 1, gpu = 2, total = 4\<rparr>, None]"]
        Energy_aggregate_max [of "[]" "[]" "[]"]
  by (simp add: ENERGY_UNIT_def)

lemma from_values_values: "Latency.values (Latency_from_values vs u) = vs"
  by (simp add: Latency_from_values_def Let_def)

lemma from_values_unit: "Latency.unit (Latency_from_values vs u) = u"
  by (simp add: Latency_from_values_def Let_def)

lemma from_values_mean:
  "mean (Latency_from_values vs u) = (if vs = [] then 0 else sum_list vs / real (length vs))"
  by (simp add: Latency_from_values_def Let_def py_sum_sum_list)

lemma mixed_not_all_absent:
  "list_ex (\<lambda>x. x = None) xs \<Longrightarrow> list_ex (\<lambda>x. x \<noteq> None) xs
     \<Longrightarrow> xs \<noteq> [] \<and> \<not> list_all (\<lambda>x. x = None) xs"
  by (auto simp: list_ex_iff list_all_iff)

section \<open>Aggregation of Latency\<close>

text \<open>
  Claim C2. \<^verbatim>\<open>Latency.aggregate\<close> returns an absent result, without raising, for the
  empty list and for a list of absent elements only; it raises a ValueError for a list with
  both a present and an absent element; for a non-empty list of present elements it returns
  a Latency whose values are the inputs' values lists concatenated in input order and whose
  mean is computed from that concatenation.
\<close>

theorem Latency_aggregate_concat:
  "(list_all (\<lambda>l. l = None) ns \<longrightarrow> Latency_aggregate ns = Inr None)
   \<and> (list_ex (\<lambda>l. l = None) ms \<and> list_ex (\<lambda>l. l \<noteq> None) ms \<longrightarrow>
        Latency_aggregate ms = Inl (ValueError ''Some latency measurements are missing''))
   \<and> (ls \<noteq> [] \<longrightarrow>
        (\<exists>r. Latency_aggregate (map Some ls) = Inr (Some r)
           \<and> Latency.values r = concat (map Latency.values ls)
           \<and> mean r = (if concat (map Latency.values ls) = [] then 0
                       else sum_list (concat (map Latency.values ls))
                            / real (length (concat (map Latency.values ls))))))"
proof (intro conjI impI)
  assume "list_all (\<lambda>l. l = None) ns"
  then show "Latency_aggregate ns = Inr None"
    by (simp add: Latency_aggregate_def)
next
  assume "list_ex (\<lambda>l. l = None) ms \<and> list_ex (\<lambda>l. l \<noteq> None) ms"
  then show "Latency_aggregate ms = Inl (ValueError ''Some latency measurements are missing'')"
    using mixed_not_all_absent [of ms] by (simp add: Latency_aggregate_def)
next
  assume ne: "ls \<noteq> []"
  let ?vs = "concat (map Latency.values ls)"
  have vals: "py_sum_lists (map (\<lambda>lat. Latency.values (the lat)) (map Some ls)) = ?vs"
    by (simp add: py_sum_lists_concat o_def)
  have "Latency_aggregate (map Some ls) = Inr (Some (Latency_from_values ?vs (Latency.unit (hd ls))))"
    unfolding Latency_aggregate_def using ne
    by (simp add: vals all_absent_map_Some no_absent_map_Some hd_conv_nth del: map_map)
  then show "\<exists>r. Latency_aggregate (map Some ls) = Inr (Some r)
           \<and> Latency.values r = ?vs
           \<and> mean r = (if ?vs = [] then 0 else sum_list ?vs / real (length ?vs))"
    by (simp add: from_values_values from_values_mean)
qed

theorem Latency_aggregate_concat_witness:
  "Latency_aggregate [] = Inr None
   \<and> Latency_aggregate [None, None] = Inr None
   \<and> Latency_aggregate [Some (Latency_from_values [1, 2] ''s''), None]
       = Inl (ValueError ''Some latency measurements are missing'')
   \<and> (\<exists>r. Latency_aggregate [Some (Latency_from_values [1, 2] ''s''),
                              Some (Latency_from_values [3] ''s'')] = Inr (Some r)
          \<and> Latency.values r = [1, 2, 3] \<and> mean r = 2)"
  using Latency_aggregate_concat
          [of "[None, None]" "[Some (Latency_from_values [1, 2] ''s''), None]"
              "[Latency_from_values [1, 2] ''s'', Latency_from_values [3] ''s'']"]
        Latency_aggregate_concat [of "[]" "[]" "[]"]
  by (simp add: from_values_values)

section \<open>Statistics of a sample list\<close>

lemma sum_squares_nonneg: "0 \<le> sum_list (map (\<lambda>x. (x - m) ^ 2) (xs :: real list))"
  by (induction xs) simp_all

text \<open>
  Claim C5. For a non-empty list of samples, \<^verbatim>\<open>Latency.from_values\<close> returns a Latency
  whose mean is the sum of the values divided by their number and whose stdev is the
  population standard deviation of the values; for fewer than two samples (one or none)
  the stdev is 0.
\<close>

theorem Latency_from_values_stats:
  "(vals \<noteq> [] \<longrightarrow>
      mean (Latency_from_values vals u) = sum_list vals / real (length vals)
      \<and> stdev (Latency_from_values vals u) = population_stdev vals)
   \<and> (length vals < 2 \<longrightarrow> stdev (Latency_from_values vals u) = 0)"
proof (intro conjI impI)
  assume "vals \<noteq> []"
  then show "mean (Latency_from_values vals u) = sum_list vals / real (length vals)"
    by (simp add: from_values_mean)
next
  assume ne: "vals \<noteq> []"
  show "stdev (Latency_from_values vals u) = population_stdev vals"
  proof (cases "length vals > 1")
    case True
    let ?m = "sum_list vals / real (length vals)"
    have "0 \<le> sum_list (map (\<lambda>x. (x - ?m) ^ 2) vals) / real (length vals)"
      by (simp add: sum_squares_nonneg)
    then have "(sum_list (map (\<lambda>x. (x - ?m) ^ 2) vals) / real (length vals)) powr (1 / 2)
               = sqrt (sum_list (map (\<lambda>x. (x - ?m) ^ 2) vals) / real (length vals))"
      by (rule powr_half_sqrt)
    with True ne show ?thesis
      by (simp add: Latency_from_values_def Let_def py_sum_sum_list population_stdev_def
            arithmetic_mean_def)
  next
    case False
    with ne obtain x where "vals = [x]"
      by (cases vals) auto
    then show ?thesis
      by (simp add: Latency_from_values_def Let_def population_stdev_def arithmetic_mean_def)
  qed
next
  assume "length vals < 2"
  then show "stdev (Latency_from_values vals u) = 0"
    by (simp add: Latency_from_values_def Let_def)
qed

theorem Latency_from_values_stats_witness:
  "mean (Latency_from_values [1, 3] ''s'') = 2
   \<and> stdev (Latency_from_values [1, 3] ''s'') = population_stdev [1, 3]
   \<and> population_stdev [1, 3] = 1
   \<and> stdev (Latency_from_values [5] ''s'') = 0
   \<and> stdev (Latency_from_values [] ''s'') = 0"
  using Latency_from_values_stats [of "[1, 3]" "''s''"]
        Latency_from_values_stats [of "[5]" "''s''"]
        Latency_from_values_stats [of "[]" "''s''"]
  by (simp add: population_stdev_def arithmetic_mean_def)

section \<open>Aggregation of Throughput and Efficiency\<close>

text \<open>
  Claim C6. For a non-empty list of present inputs, \<^verbatim>\<open>Throughput.aggregate\<close> returns the
  sum of the inputs' values and \<^verbatim>\<open>Efficiency.aggregate\<close> returns their arithmetic mean;
  each raises a ValueError for the empty list and for a list with an absent element.
\<close>

theorem sum_versus_mean_aggregate:
  "(ts \<noteq> [] \<longrightarrow>
      (\<exists>r. Throughput_aggregate (map Some ts) = Inr r
           \<and> Throughput.value r = sum_list (map Throughput.value ts)))
   \<and> (fs \<noteq> [] \<longrightarrow>
      (\<exists>r. Efficiency_aggregate (map Some fs) = Inr r
           \<and> Efficiency.value r = arithmetic_mean (map Efficiency.value fs)))
   \<and> Throughput_aggregate [] = Inl (ValueError ''No throughput measurements to aggregate'')
   \<and> Efficiency_aggregate [] = Inl (ValueError ''No efficiency measurements to aggregate'')
   \<and> (list_ex (\<lambda>t. t = None) tn \<longrightarrow>
        Throughput_aggregate tn = Inl (ValueError ''Some throughput measurements are missing''))
   \<and> (list_ex (\<lambda>f. f = None) fn \<longrightarrow>
        Efficiency_aggregate fn = Inl (ValueError ''Some efficiency measurements are None''))"
proof (intro conjI impI)
  assume "ts \<noteq> []"
  then show "\<exists>r. Throughput_aggregate (map Some ts) = Inr r
           \<and> Throughput.value r = sum_list (map Throughput.value ts)"
    by (simp add: Throughput_aggregate_def no_absent_map_Some py_sum_sum_list o_def)
next
  assume "fs \<noteq> []"
  then show "\<exists>r. Efficiency_aggregate (map Some fs) = Inr r
           \<and> Efficiency.value r = arithmetic_mean (map Efficiency.value fs)"
    by (simp add: Efficiency_aggregate_def no_absent_map_Some py_sum_sum_list o_def
          arithmetic_mean_def)
next
  show "Throughput_aggregate [] = Inl (ValueError ''No throughput measurements to aggregate'')"
    by (simp add: Throughput_aggregate_def)
next
  show "Efficiency_aggregate [] = Inl (ValueError ''No efficiency measurements to aggregate'')"
    by (simp add: Efficiency_aggregate_def)
next
  assume "list_ex (\<lambda>t. t = None) tn"
  then show "Throughput_aggregate tn = Inl (ValueError ''Some throughput measurements are missing'')"
    by (cases tn) (simp_all add: Throughput_aggregate_def)
next
  assume "list_ex (\<lambda>f. f = None) fn"
  then show "Efficiency_aggregate fn = Inl (ValueError ''Some efficiency measurements are None'')"
    by (cases fn) (simp_all add: Efficiency_aggregate_def)
qed

theorem sum_versus_mean_aggregate_witness:
  "(\<exists>r. Throughput_aggregate [Some \<lparr>Throughput.unit = ''tokens/s'', value = 10\<rparr>,
                               Some \<lparr>Throughput.unit = ''tokens/s'', value = 15\<rparr>] = Inr r
        \<and> Throughput.value r = 25)
   \<and> (\<exists>r. Efficiency_aggregate [Some \<lparr>Efficiency.unit = ''tokens/kWh'', value = 10\<rparr>,
                                 Some \<lparr>Efficiency.unit = ''tokens/kWh'', value = 20\<rparr>] = Inr r
        \<and> Efficiency.value r = 15)
   \<and> Throughput_aggregate [Some \<lparr>Throughput.unit = ''tokens/s'', value = 10\<rparr>, None]
       = Inl (ValueError ''Some throughput measurements are missing'')
   \<and> Efficiency_aggregate [None, Some \<lparr>Efficiency.unit = ''tokens/kWh'', value = 10\<rparr>]
       = Inl (ValueError ''Some efficiency measurements are None'')"
  using sum_versus_mean_aggregate
          [of "[\<lparr>Throughput.unit = ''tokens/s'', value = 10\<rparr>,
                \<lparr>Throughput.unit = ''tokens/s'', value = 15\<rparr>]"
              "[\<lparr>Efficiency.unit = ''tokens/kWh'', value = 10\<rparr>,
                \<lparr>Efficiency.unit = ''tokens/kWh'', value = 20\<rparr>]"
              "[Some \<lparr>Throughput.unit = ''tokens/s'', value = 10\<rparr>, None]"
              "[None, Some \<lparr>Efficiency.unit = ''tokens/kWh'', value = 10\<rparr>]"]
  by (simp add: arithmetic_mean_def)

text \<open>
  Claim C9. \<^verbatim>\<open>Latency.aggregate\<close>, \<^verbatim>\<open>Throughput.aggregate\<close> and
  \<^verbatim>\<open>Efficiency.aggregate\<close> do not compare the units of their inputs: for every non-empty
  list of present inputs, whatever their units, each returns a result and the unit of the
  result is the unit of the first input.
\<close>

theorem aggregate_unit_of_first:
  "ls \<noteq> [] \<and> ts \<noteq> [] \<and> fs \<noteq> [] \<longrightarrow>
     (\<exists>r. Latency_aggregate (map Some ls) = Inr (Some r) \<and> Latency.unit r = Latency.unit (hd ls))
   \<and> (\<exists>r. Throughput_aggregate (map Some ts) = Inr r
          \<and> Throughput.unit r = Throughput.unit (hd ts))
   \<and> (\<exists>r. Efficiency_aggregate (map Some fs) = Inr r
          \<and> Efficiency.unit r = Efficiency.unit (hd fs))"
proof (intro impI conjI)
  assume a: "ls \<noteq> [] \<and> ts \<noteq> [] \<and> fs \<noteq> []"
  from a show "\<exists>r. Latency_aggregate (map Some ls) = Inr (Some r)
                 \<and> Latency.unit r = Latency.unit (hd ls)"
    by (simp add: Latency_aggregate_def all_absent_map_Some no_absent_map_Some
          from_values_unit hd_conv_nth)
  from a show "\<exists>r. Throughput_aggregate (map Some ts) = Inr r
                 \<and> Throughput.unit r = Throughput.unit (hd ts)"
    by (simp add: Throughput_aggregate_def no_absent_map_Some hd_conv_nth)
  from a show "\<exists>r. Efficiency_aggregate (map Some fs) = Inr r
                 \<and> Efficiency.unit r = Efficiency.unit (hd fs)"
    by (simp add: Efficiency_aggregate_def no_absent_map_Some hd_conv_nth)
qed

theorem aggregate_unit_of_first_witness:
  "(\<exists>r. Latency_aggregate [Some (Latency_from_values [1] ''s''),
                            Some (Latency_from_values [2] ''ms'')] = Inr (Some r)
        \<and> Latency.unit r = ''s'')
   \<and> (\<exists>r. Throughput_aggregate [Some \<lparr>Throughput.unit = ''tokens/s'', value = 10\<rparr>,
                                 Some \<lparr>Throughput.unit = ''samples/s'', value = 15\<rparr>] = Inr r
        \<and> Throughput.unit r = ''tokens/s'')
   \<and> (\<exists>r. Efficiency_aggregate [Some \<lparr>Efficiency.unit = ''images/kWh'', value = 10\<rparr>,
                                 Some \<lparr>Efficiency.unit = ''tokens/kWh'', value = 20\<rparr>] = Inr r
        \<and> Efficiency.unit r = ''images/kWh'')"
  using aggregate_unit_of_first
          [of "[Latency_from_values [1] ''s'', Latency_from_values [2] ''ms'']"
              "[\<lparr>Throughput.unit = ''tokens/s'', value = 10\<rparr>,
                \<lparr>Throughput.unit = ''samples/s'', value = 15\<rparr>]"
              "[\<lparr>Efficiency.unit = ''images/kWh'', value = 10\<rparr>,
                \<lparr>Efficiency.unit = ''tokens/kWh'', value = 20\<rparr>]"]
  by (simp add: from_values_unit)

section \<open>Derived rates\<close>

text \<open>
  Claim C8, as amended. \<^verbatim>\<open>Throughput.from_latency\<close> returns the volume divided by the
  mean when the latency's mean is positive and 0 when the mean is zero or negative (no
  division by zero is attempted); \<^verbatim>\<open>Efficiency.from_energy\<close> returns the volume divided
  by the total energy when the total is positive and 0 when it is zero or negative.
\<close>

theorem rate_guarded_by_positive:
  "(mean latency > 0 \<longrightarrow>
      Throughput.value (Throughput_from_latency latency volume u)
        = real_of_int volume / mean latency)
   \<and> (mean latency \<le> 0 \<longrightarrow> Throughput.value (Throughput_from_latency latency volume u) = 0)
   \<and> (total energy > 0 \<longrightarrow>
      Efficiency.value (Efficiency_from_energy energy volume v)
        = real_of_int volume / total energy)
   \<and> (total energy \<le> 0 \<longrightarrow> Efficiency.value (Efficiency_from_energy energy volume v) = 0)"
  by (simp add: Throughput_from_latency_def Efficiency_from_energy_def Let_def)

theorem rate_guarded_by_positive_witness:
  "Throughput.value (Throughput_from_latency (Latency_from_values [2, 2] ''s'') 8 ''tokens/s'') = 4
   \<and> Throughput.value (Throughput_from_latency (Latency_from_values [0] ''s'') 8 ''tokens/s'') = 0
   \<and> Efficiency.value
        (Efficiency_from_energy
           \<lparr>Energy.unit = ''kWh'', cpu = 1, ram = 1, gpu = 0, total = 2\<rparr> 8 ''tokens/kWh'') = 4
   \<and> Efficiency.value
        (Efficiency_from_energy
           \<lparr>Energy.unit = ''kWh'', cpu = 0, ram = 0, gpu = 0, total = 0\<rparr> 8 ''tokens/kWh'') = 0"
  using rate_guarded_by_positive
          [of "Latency_from_values [2, 2] ''s''" 8 "''tokens/s''"
              "\<lparr>Energy.unit = ''kWh'', cpu = 1, ram = 1, gpu = 0, total = 2\<rparr>" "''tokens/kWh''"]
        rate_guarded_by_positive
          [of "Latency_from_values [0] ''s''" 8 "''tokens/s''"
              "\<lparr>Energy.unit = ''kWh'', cpu = 0, ram = 0, gpu = 0, total = 0\<rparr>" "''tokens/kWh''"]
  by (simp add: from_values_mean)

text \<open>
  Claim C8 as first stated (volume divided by the mean whenever the mean is not 0) fails
  for a negative mean: subtracting the bias 2 from the single sample 1 gives a Latency of
  mean -1, for which the throughput of volume 2 is 0 and not -2; likewise for an Energy
  whose total is -1.
\<close>

theorem rate_negative_denominator_counterexample:
  "mean (Latency_sub (Latency_from_values [1] ''s'') 2) = - 1
   \<and> Throughput.value
        (Throughput_from_latency (Latency_sub (Latency_from_values [1] ''s'') 2) 2 ''samples/s'')
       \<noteq> real_of_int 2 / mean (Latency_sub (Latency_from_values [1] ''s'') 2)
   \<and> total \<lparr>Energy.unit = ''kWh'', cpu = - 1, ram = 0, gpu = 0, total = - 1\<rparr> \<noteq> 0
   \<and> Efficiency.value
        (Efficiency_from_energy
           \<lparr>Energy.unit = ''kWh'', cpu = - 1, ram = 0, gpu = 0, total = - 1\<rparr> 2 ''samples/kWh'')
       \<noteq> real_of_int 2
          / total \<lparr>Energy.unit = ''kWh'', cpu = - 1, ram = 0, gpu = 0, total = - 1\<rparr>"
  by (simp add: Latency_sub_def Latency_from_values_def Throughput_from_latency_def
        Efficiency_from_energy_def py_sum_def Let_def)

section \<open>A tracker without samples\<close>

lemma from_values_Nil:
  "Latency_from_values [] u = \<lparr>Latency.unit = u, mean = 0, stdev = 0, values = []\<rparr>"
  by (simp add: Latency_from_values_def)

lemma get_latency_no_markers:
  "\<not> (backend self = ''pytorch'' \<and> device self = ''cuda'') \<Longrightarrow> start_events self = []
     \<Longrightarrow> get_latency self = Inr (Latency_from_values [] LATENCY_UNIT)"
  by (auto simp: get_latency_def py_range_def)

text \<open>
  Claim C10, as amended. \<^verbatim>\<open>Latency.from_values\<close> of the empty list returns, without raising, a
  Latency of mean 0, stdev 0 and no values. Hence on the host-clock path (any backend and
  device other than pytorch on cuda) a tracker in which no \<^verbatim>\<open>track()\<close> region has been
  entered since construction or \<^verbatim>\<open>reset()\<close> returns that empty Latency from
  \<^verbatim>\<open>get_latency()\<close>, and \<^verbatim>\<open>get_throughput\<close> returns value 0.
\<close>

theorem empty_tracker_latency:
  "Latency_from_values [] u = \<lparr>Latency.unit = u, mean = 0, stdev = 0, values = []\<rparr>
   \<and> (\<not> (back = ''pytorch'' \<and> dev = ''cuda'') \<longrightarrow>
        get_latency (LatencyTracker_init dev back is_dist now)
          = Inr \<lparr>Latency.unit = LATENCY_UNIT, mean = 0, stdev = 0, values = []\<rparr>
        \<and> get_throughput (LatencyTracker_init dev back is_dist now) volume tu
          = Inr \<lparr>Throughput.unit = tu, value = 0\<rparr>)
   \<and> (\<not> (backend self = ''pytorch'' \<and> device self = ''cuda'') \<longrightarrow>
        get_latency (reset self now)
          = Inr \<lparr>Latency.unit = LATENCY_UNIT, mean = 0, stdev = 0, values = []\<rparr>
        \<and> get_throughput (reset self now) volume tu
          = Inr \<lparr>Throughput.unit = tu, value = 0\<rparr>)"
proof (intro conjI impI)
  show "Latency_from_values [] u = \<lparr>Latency.unit = u, mean = 0, stdev = 0, values = []\<rparr>"
    by (rule from_values_Nil)
next
  assume h: "\<not> (back = ''pytorch'' \<and> dev = ''cuda'')"
  let ?t = "LatencyTracker_init dev back is_dist now"
  have "\<not> (backend ?t = ''pytorch'' \<and> device ?t = ''cuda'')" "start_events ?t = []"
    using h by (simp_all add: LatencyTracker_init_def reset_def)
  then have g: "get_latency ?t = Inr (Latency_from_values [] LATENCY_UNIT)"
    by (rule get_latency_no_markers)
  then show "get_latency ?t = Inr \<lparr>Latency.unit = LATENCY_UNIT, mean = 0, stdev = 0, values = []\<rparr>"
    by (simp add: from_values_Nil)
  from g show "get_throughput ?t volume tu = Inr \<lparr>Throughput.unit = tu, value = 0\<rparr>"
    by (simp add: get_throughput_def from_values_Nil Throughput_from_latency_def)
next
  assume h: "\<not> (backend self = ''pytorch'' \<and> device self = ''cuda'')"
  let ?t = "reset self now"
  have "\<not> (backend ?t = ''pytorch'' \<and> device ?t = ''cuda'')" "start_events ?t = []"
    using h by (simp_all add: reset_def)
  then have g: "get_latency ?t = Inr (Latency_from_values [] LATENCY_UNIT)"
    by (rule get_latency_no_markers)
  then show "get_latency ?t = Inr \<lparr>Latency.unit = LATENCY_UNIT, mean = 0, stdev = 0, values = []\<rparr>"
    by (simp add: from_values_Nil)
  from g show "get_throughput ?t volume tu = Inr \<lparr>Throughput.unit = tu, value = 0\<rparr>"
    by (simp add: get_throughput_def from_values_Nil Throughput_from_latency_def)
qed

theorem empty_tracker_latency_witness:
  "get_latency (LatencyTracker_init ''cpu'' ''pytorch'' False 5)
     = Inr \<lparr>Latency.unit = ''s'', mean = 0, stdev = 0, values = []\<rparr>
   \<and> get_throughput (LatencyTracker_init ''cpu'' ''pytorch'' False 5) 16 ''tokens/s''
     = Inr \<lparr>Throughput.unit = ''tokens/s'', value = 0\<rparr>
   \<and> get_latency (reset (LatencyTracker_init ''cuda'' ''onnxruntime'' True 2) 5)
     = Inr \<lparr>Latency.unit = ''s'', mean = 0, stdev = 0, values = []\<rparr>"
  using empty_tracker_latency
          [of "''s''" "''pytorch''" "''cpu''" False 5 16 "''tokens/s''"
              "LatencyTracker_init ''cuda'' ''onnxruntime'' True 2"]
  by (simp add: LATENCY_UNIT_def LatencyTracker_init_def reset_def)

text \<open>
  Claim C10 as first stated (every host-clock tracker that has completed zero
  \<^verbatim>\<open>track()\<close> regions returns the empty Latency) fails: a tracker whose only region was
  entered at 1 and left by an exception has completed no region, holds the start marker 1
  and no end marker, and both \<^verbatim>\<open>get_latency()\<close> and \<^verbatim>\<open>get_throughput\<close> raise an
  IndexError.
\<close>

theorem raised_only_region_counterexample:
  "fst (track (LatencyTracker_init ''cpu'' ''pytorch'' False 0) 1 raising_body 2) = Inl ''boom''
   \<and> end_events (snd (track (LatencyTracker_init ''cpu'' ''pytorch'' False 0) 1 raising_body 2)) = []
   \<and> get_latency (snd (track (LatencyTracker_init ''cpu'' ''pytorch'' False 0) 1 raising_body 2))
       = Inl (IndexError ''list index out of range'')
   \<and> get_throughput (snd (track (LatencyTracker_init ''cpu'' ''pytorch'' False 0) 1 raising_body 2))
         16 ''tokens/s''
       = Inl (IndexError ''list index out of range'')"
  by (simp add: track_def track_enter_def raising_body_def LatencyTracker_init_def reset_def
        cpu_latency_enter_def get_latency_def get_throughput_def py_range_def getitem_def
        Let_def)

section \<open>An exception inside a tracked region\<close>

lemma track_enter_markers:
  "start_events (track_enter self t) = start_events self @ [t]
   \<and> end_events (track_enter self t) = end_events self"
  by (simp add: track_enter_def barrier_def cpu_latency_enter_def pytorch_cuda_latency_enter_def
        Let_def)

text \<open>
  Claim C7, as amended. For every exception raised by the body of a
  \<^verbatim>\<open>LatencyTracker.track()\<close> region, the exception propagates unchanged to the caller and
  the tracker is left exactly as the body left it: no end marker is recorded and no sample
  value, zero or partial, is stored. The start marker recorded on entry is not removed: for a
  body that does not touch the tracker, the start markers are the previous ones followed by
  the new one and the end markers are the previous ones.
\<close>

theorem track_body_raises:
  "(body (track_enter self t_start) = (Inl exc, s) \<longrightarrow>
      track self t_start body t_end = (Inl exc, s))
   \<and> (body (track_enter self t_start) = (Inl exc, track_enter self t_start) \<longrightarrow>
      fst (track self t_start body t_end) = Inl exc
      \<and> end_events (snd (track self t_start body t_end)) = end_events self
      \<and> start_events (snd (track self t_start body t_end)) = start_events self @ [t_start])"
  by (simp add: track_def track_enter_markers)

lemma upt_0_2: "[0..<2] = [0, Suc 0]"
  by (simp add: upt_rec)

theorem track_body_raises_witness:
  "track (LatencyTracker_init ''cpu'' ''pytorch'' False 0) 1 raising_body 2
     = (Inl ''boom'',
        \<lparr>device = ''cpu'', backend = ''pytorch'', distributed = False,
         start_events = [1], end_events = [], start_time = 0, barriers = 0\<rparr>)"
  using track_body_raises
          [of raising_body "LatencyTracker_init ''cpu'' ''pytorch'' False 0" 1 "''boom''"
              "track_enter (LatencyTracker_init ''cpu'' ''pytorch'' False 0) 1" 2]
  by (simp add: raising_body_def LatencyTracker_init_def reset_def track_enter_def
        cpu_latency_enter_def)

text \<open>
  Claim C7 as first stated (later statistics behave as if the region had contributed no
  sample) fails: after one completed region from 1 to 2, \<^verbatim>\<open>get_latency()\<close> returns the
  single sample 1; after a further region entered at 3 whose body raises, the start marker 3
  has no end marker and \<^verbatim>\<open>get_latency()\<close> raises an IndexError.
\<close>

theorem track_raise_breaks_get_latency_counterexample:
  "get_latency (snd (track (LatencyTracker_init ''cpu'' ''pytorch'' False 0) 1 passing_body 2))
     = Inr \<lparr>Latency.unit = ''s'', mean = 1, stdev = 0, values = [1]\<rparr>
   \<and> fst (track (snd (track (LatencyTracker_init ''cpu'' ''pytorch'' False 0) 1 passing_body 2))
            3 raising_body 4) = Inl ''boom''
   \<and> get_latency
        (snd (track (snd (track (LatencyTracker_init ''cpu'' ''pytorch'' False 0) 1 passing_body 2))
                3 raising_body 4))
     = Inl (IndexError ''list index out of range'')"
  by (simp add: track_def track_enter_def track_exit_def raising_body_def passing_body_def
        LatencyTracker_init_def reset_def cpu_latency_enter_def cpu_latency_exit_def
        get_latency_def py_range_def upt_0_2 getitem_def Latency_from_values_def py_sum_def
        LATENCY_UNIT_def Let_def)

section \<open>Gathering the rank reports\<close>

lemma list_comp_Inr:
  "list_comp f xs = Inr ys \<Longrightarrow>
     length ys = length xs \<and> (\<forall>i<length xs. f (xs ! i) = Inr (ys ! i))"
proof (induction xs arbitrary: ys)
  case Nil
  then show ?case by simp
next
  case (Cons x xs)
  from Cons.prems obtain v vs where
    v: "f x = Inr v" and vs: "list_comp f xs = Inr vs" and ys: "ys = v # vs"
    by (auto split: sum.splits)
  from Cons.IH [OF vs] have "length vs = length xs" "\<forall>i<length xs. f (xs ! i) = Inr (vs ! i)"
    by simp_all
  with v ys show ?case
    by (auto simp: nth_Cons split: nat.splits)
qed

lemma all_reports_iff:
  "list_all (\<lambda>rank. isfile fs (report_file rank)) [0..<n]
     = (\<forall>rank<n. fs (report_file rank) \<noteq> None)"
  by (auto simp: list_all_iff isfile_def)

text \<open>
  Claim C3. If any of the R expected files \<^verbatim>\<open>benchmark_report_rank_{rank}.json\<close>,
  rank in 0..R-1, is missing, the launch raises a RuntimeError whether the exit code of the
  isolated process is zero or not. Whenever the launch returns a report, all R files exist
  and the report is the aggregation of the R reports read from them, in rank order; a
  partial set is never aggregated.
\<close>

theorem gather_needs_every_report:
  "((\<exists>rank<n. fs (report_file rank) = None) \<longrightarrow>
      launch n fs exitcode from_json aggregate =
        Inl (RuntimeError
              (if exitcode \<noteq> 0
               then ''Process exited with non-zero code '' @ str_int exitcode @ ''.''
               else ''Could not retrieve report from isolated process.'')))
   \<and> (launch n fs exitcode from_json aggregate = Inr report \<longrightarrow>
        (\<forall>rank<n. fs (report_file rank) \<noteq> None)
        \<and> (\<exists>reports. length reports = n
              \<and> (\<forall>rank<n. read_report from_json fs (report_file rank) = Inr (reports ! rank))
              \<and> aggregate reports = Inr report))"
proof (intro conjI impI)
  assume "\<exists>rank<n. fs (report_file rank) = None"
  then have "\<not> list_all (\<lambda>rank. isfile fs (report_file rank)) [0..<n]"
    by (simp add: all_reports_iff)
  then show "launch n fs exitcode from_json aggregate =
        Inl (RuntimeError
              (if exitcode \<noteq> 0
               then ''Process exited with non-zero code '' @ str_int exitcode @ ''.''
               else ''Could not retrieve report from isolated process.''))"
    by (simp add: launch_def)
next
  assume ok: "launch n fs exitcode from_json aggregate = Inr report"
  have all: "list_all (\<lambda>rank. isfile fs (report_file rank)) [0..<n]"
  proof (rule ccontr)
    assume "\<not> list_all (\<lambda>rank. isfile fs (report_file rank)) [0..<n]"
    with ok show False by (simp add: launch_def split: if_splits)
  qed
  then show "\<forall>rank<n. fs (report_file rank) \<noteq> None"
    by (simp add: all_reports_iff)
  from ok all obtain reports where
    r: "list_comp (\<lambda>rank. read_report from_json fs (report_file rank)) [0..<n] = Inr reports"
    and a: "aggregate reports = Inr report"
    by (auto simp: launch_def split: sum.splits)
  from list_comp_Inr [OF r] have "length reports = n"
    "\<forall>rank<n. read_report from_json fs (report_file rank) = Inr (reports ! rank)"
    by simp_all
  with a show "\<exists>reports. length reports = n
              \<and> (\<forall>rank<n. read_report from_json fs (report_file rank) = Inr (reports ! rank))
              \<and> aggregate reports = Inr report"
    by blast
qed

lemma report_file_0: "report_file 0 = ''benchmark_report_rank_0.json''"
  by (simp add: report_file_def str_nat.simps digit_char_def)

lemma report_file_1: "report_file (Suc 0) = ''benchmark_report_rank_1.json''"
  by (simp add: report_file_def str_nat.simps digit_char_def)

lemma report_file_2: "report_file 2 = ''benchmark_report_rank_2.json''"
  by (simp add: report_file_def str_nat.simps digit_char_def)

theorem gather_needs_every_report_witness:
  "launch 3 two_of_three 0 Inr add_reports
     = Inl (RuntimeError ''Could not retrieve report from isolated process.'')
   \<and> launch 2 two_of_three 0 Inr add_reports = Inr 30"
proof -
  have miss: "\<exists>rank<3. two_of_three (report_file rank) = None"
    using report_file_2 by (intro exI [of _ 2]) (simp add: two_of_three_def)
  have ok: "launch 2 two_of_three 0 Inr add_reports = Inr 30"
    by (simp add: launch_def upt_0_2 isfile_def read_report_def report_file_0
          report_file_1 two_of_three_def add_reports_def)
  from gather_needs_every_report [of 3 two_of_three 0 Inr add_reports] miss
       gather_needs_every_report [of 2 two_of_three 0 Inr add_reports 30] ok
  show ?thesis by simp
qed

text \<open>
  Claim C4, as amended. When the isolated process exits with a non-zero code and at least
  one of the R rank report files is missing, the launch raises a RuntimeError that names the
  exit code. When all R rank report files exist, the exit code is not consulted: the launch
  returns what it returns for exit code 0.
\<close>

theorem nonzero_exit_raises_when_report_missing:
  "(exitcode \<noteq> 0 \<and> (\<exists>rank<n. fs (report_file rank) = None) \<longrightarrow>
      launch n fs exitcode from_json aggregate =
        Inl (RuntimeError (''Process exited with non-zero code '' @ str_int exitcode @ ''.'')))
   \<and> ((\<forall>rank<n. fs (report_file rank) \<noteq> None) \<longrightarrow>
      launch n fs exitcode from_json aggregate = launch n fs 0 from_json aggregate)"
proof (intro conjI impI)
  assume a: "exitcode \<noteq> 0 \<and> (\<exists>rank<n. fs (report_file rank) = None)"
  then have "\<not> list_all (\<lambda>rank. isfile fs (report_file rank)) [0..<n]"
    by (simp add: all_reports_iff)
  with a show "launch n fs exitcode from_json aggregate =
        Inl (RuntimeError (''Process exited with non-zero code '' @ str_int exitcode @ ''.''))"
    by (simp add: launch_def)
next
  assume "\<forall>rank<n. fs (report_file rank) \<noteq> None"
  then have "list_all (\<lambda>rank. isfile fs (report_file rank)) [0..<n]"
    by (simp add: all_reports_iff)
  then show "launch n fs exitcode from_json aggregate = launch n fs 0 from_json aggregate"
    by (simp add: launch_def)
qed

theorem nonzero_exit_raises_when_report_missing_witness:
  "launch 3 two_of_three 1 Inr add_reports
     = Inl (RuntimeError ''Process exited with non-zero code 1.'')
   \<and> launch 2 two_of_three (- 9) Inr add_reports = launch 2 two_of_three 0 Inr add_reports"
proof -
  have miss: "\<exists>rank<3. two_of_three (report_file rank) = None"
    using report_file_2 by (intro exI [of _ 2]) (simp add: two_of_three_def)
  have all: "\<forall>rank<2. two_of_three (report_file rank) \<noteq> None"
    using report_file_0 report_file_1 by (simp add: two_of_three_def less_Suc_eq numeral_2_eq_2)
  have s: "str_int 1 = ''1''"
    by (simp add: str_int_def str_nat.simps digit_char_def)
  from nonzero_exit_raises_when_report_missing [of 1 3 two_of_three Inr add_reports] miss
       nonzero_exit_raises_when_report_missing [of "- 9" 2 two_of_three Inr add_reports] all
  show ?thesis by (simp add: s)
qed

text \<open>
  Claim C4 as first stated (a non-zero exit code always surfaces as a failure) fails: with
  the reports of both of two ranks in place and exit code 1, the launch returns the
  aggregated report.
\<close>

theorem nonzero_exit_with_all_reports_counterexample:
  "launch 2 two_of_three 1 Inr add_reports = Inr 30"
  by (simp add: launch_def upt_0_2 isfile_def read_report_def report_file_0
        report_file_1 two_of_three_def add_reports_def)

end
